theory Spec2Isabelle
  imports Main
begin

section \<open>Values\<close>

text \<open>
  JSON values as \<^verbatim>\<open>express.json()\<close> parses them and as the driver hands them back for
  a \<^verbatim>\<open>jsonb\<close> column. An object is its list of members in order; an absent member
  (JavaScript's \<^verbatim>\<open>undefined\<close>) is \<open>None\<close> at the place that reads it. Numbers are
  the integers: the controller computes with counters only.
\<close>

datatype json =
    JNull
  | JBool bool
  | JNum int
  | JStr string
  | JArr "json list"
  | JObj "(string \<times> json) list"

text \<open>A JavaScript \<^verbatim>\<open>Error\<close>: \<^verbatim>\<open>err.statusCode\<close>, \<^verbatim>\<open>err.message\<close>, \<^verbatim>\<open>err.stack\<close>.\<close>

record js_error =
  statusCode :: "nat option"
  message :: string
  stack :: "string option"

definition Error :: "string \<Rightarrow> js_error" where
  "Error m = \<lparr>statusCode = None, message = m, stack = None\<rparr>"

section \<open>The two tables\<close>

text \<open>
  The columns the controller's statements name. \<^verbatim>\<open>users.id\<close> and
  \<^verbatim>\<open>user_profiles.user_id\<close> carry the unique indexes that the
  \<^verbatim>\<open>ON CONFLICT (id)\<close> and \<^verbatim>\<open>ON CONFLICT (user_id)\<close> clauses need, so they are
  never NULL here; every other text column is nullable (\<open>None\<close> is SQL NULL).
  \<^verbatim>\<open>completed_assessments\<close> is an unbounded integer.
\<close>

record user_row =
  u_id :: string
  u_email :: "string option"
  u_display_name :: "string option"
  u_photo_url :: "string option"
  u_custom_user_id :: "string option"
  u_updated_at :: nat

record profile_row =
  p_user_id :: string
  p_major :: "string option"
  p_interests :: "string list"
  p_completed_assessments :: int
  p_assessment_results :: "json option"
  p_updated_at :: nat

record database =
  users :: "user_row list"
  user_profiles :: "profile_row list"

text \<open>
  Modelled from the spec: the column defaults of \<^verbatim>\<open>users\<close> and \<^verbatim>\<open>user_profiles\<close>
  (the schema is not among the sources). Section 8 gives a fresh profile
  \<^verbatim>\<open>completed_assessments = 0\<close>, \<^verbatim>\<open>interests = []\<close>, \<^verbatim>\<open>assessment_results = null\<close>;
  section 3 makes \<^verbatim>\<open>major\<close>, \<^verbatim>\<open>photo_url\<close> and \<^verbatim>\<open>custom_user_id\<close> nullable. The spec
  names no default for \<^verbatim>\<open>updated_at\<close>; a new row is stamped with the time of the insert.
\<close>

definition new_user :: "string \<Rightarrow> string option \<Rightarrow> string option \<Rightarrow> nat \<Rightarrow> user_row" where
  "new_user i e d now =
     \<lparr>u_id = i, u_email = e, u_display_name = d, u_photo_url = None,
      u_custom_user_id = None, u_updated_at = now\<rparr>"

definition new_profile :: "string \<Rightarrow> nat \<Rightarrow> profile_row" where
  "new_profile i now =
     \<lparr>p_user_id = i, p_major = None, p_interests = [], p_completed_assessments = 0,
      p_assessment_results = None, p_updated_at = now\<rparr>"

subsection \<open>Rows as the driver returns them\<close>

definition text_json :: "string option \<Rightarrow> json" where
  "text_json t = (case t of None \<Rightarrow> JNull | Some s \<Rightarrow> JStr s)"

definition jsonb_json :: "json option \<Rightarrow> json" where
  "jsonb_json j = (case j of None \<Rightarrow> JNull | Some v \<Rightarrow> v)"

text \<open>The nine columns of the controller's profile SELECT; \<open>None\<close> is the NULL-extended
  side of the LEFT JOIN.\<close>

definition joined_row :: "user_row \<Rightarrow> profile_row option \<Rightarrow> json" where
  "joined_row u po =
     JObj [(''id'', JStr (u_id u)),
           (''email'', text_json (u_email u)),
           (''display_name'', text_json (u_display_name u)),
           (''photo_url'', text_json (u_photo_url u)),
           (''custom_user_id'', text_json (u_custom_user_id u)),
           (''major'', (case po of None \<Rightarrow> JNull | Some p \<Rightarrow> text_json (p_major p))),
           (''interests'', (case po of None \<Rightarrow> JNull | Some p \<Rightarrow> JArr (map JStr (p_interests p)))),
           (''completed_assessments'',
              (case po of None \<Rightarrow> JNull | Some p \<Rightarrow> JNum (p_completed_assessments p))),
           (''assessment_results'',
              (case po of None \<Rightarrow> JNull | Some p \<Rightarrow> jsonb_json (p_assessment_results p)))]"

text \<open>\<^verbatim>\<open>RETURNING *\<close> on either table.\<close>

definition user_json :: "user_row \<Rightarrow> json" where
  "user_json u =
     JObj [(''id'', JStr (u_id u)),
           (''email'', text_json (u_email u)),
           (''display_name'', text_json (u_display_name u)),
           (''photo_url'', text_json (u_photo_url u)),
           (''custom_user_id'', text_json (u_custom_user_id u)),
           (''updated_at'', JNum (int (u_updated_at u)))]"

definition profile_json :: "profile_row \<Rightarrow> json" where
  "profile_json p =
     JObj [(''user_id'', JStr (p_user_id p)),
           (''major'', text_json (p_major p)),
           (''interests'', JArr (map JStr (p_interests p))),
           (''completed_assessments'', JNum (p_completed_assessments p)),
           (''assessment_results'', jsonb_json (p_assessment_results p)),
           (''updated_at'', JNum (int (p_updated_at p)))]"

section \<open>The statements\<close>

text \<open>
  One constructor for each SQL text of the controller, with its parameters in the
  order of the source's parameter array. A parameter that is \<^verbatim>\<open>undefined\<close> or
  \<^verbatim>\<open>null\<close> in JavaScript reaches the database as NULL (\<open>None\<close>).
\<close>

datatype stmt =
    BEGIN
  | COMMIT
  | ROLLBACK
  | SelectProfileLeftJoin "string option"
  | InsertUser "string option" "string option" "string option"
  | InsertProfile "string option"
  | UpdateUser "string option" "string option" "string option"
  | UpdateProfile "string option" "string list" "string option"
  | SelectProfileJoin "string option"
  | SelectProfileExists "string option"
  | InsertAssessment "string option" "json option"
  | UpdateAssessment "json option" "string option"
  | DeleteAssessment "string list" nat "string option"
  | SelectCustomIdTaken "string option" "string option"
  | UpdateCustomId "string option" "string option"
  | UpdatePhoto "string option" "string option"
  | SelectPhotoUrl "string option"
  | DeleteProfile "string option"
  | DeleteUserRow "string option"

text \<open>SQL comparison in a WHERE clause: a row passes only when the comparison is TRUE,
  and a comparison with NULL is never TRUE.\<close>

definition sql_eq :: "string option \<Rightarrow> string option \<Rightarrow> bool" where
  "sql_eq a b = (case (a, b) of (Some x, Some y) \<Rightarrow> x = y | _ \<Rightarrow> False)"

definition sql_ne :: "string option \<Rightarrow> string option \<Rightarrow> bool" where
  "sql_ne a b = (case (a, b) of (Some x, Some y) \<Rightarrow> x \<noteq> y | _ \<Rightarrow> False)"

text \<open>\<^verbatim>\<open>x != ANY(arr)\<close> is TRUE when some element of the array differs from \<open>x\<close>.\<close>

definition ne_any :: "string option \<Rightarrow> string list \<Rightarrow> bool" where
  "ne_any x arr = list_ex (\<lambda>d. sql_ne x (Some d)) arr"

text \<open>
  \<^verbatim>\<open>result->>'date'\<close>: the member as text, NULL when the value is no object, has no
  such member, or the member is JSON null. The text of a member that is not a string is
  PostgreSQL's rendering of it, the parameter \<open>render\<close>.
\<close>

definition arrow_text :: "(json \<Rightarrow> string) \<Rightarrow> json \<Rightarrow> string \<Rightarrow> string option" where
  "arrow_text render j k =
     (case j of
        JObj kvs \<Rightarrow>
          (case map_of kvs k of
             None \<Rightarrow> None
           | Some JNull \<Rightarrow> None
           | Some (JStr s) \<Rightarrow> Some s
           | Some v \<Rightarrow> Some (render v))
      | _ \<Rightarrow> None)"

text \<open>
  The subquery of \<^verbatim>\<open>deleteAssessmentResults\<close>:
  \<^verbatim>\<open>SELECT jsonb_agg(result) FROM jsonb_array_elements(assessment_results) result
  WHERE result->>'date' != ANY($1)\<close>.
  \<^verbatim>\<open>jsonb_array_elements\<close> of NULL has no rows, of a value that is no array it is an
  error; \<^verbatim>\<open>jsonb_agg\<close> over no rows is NULL.
\<close>

definition delete_dates ::
  "(json \<Rightarrow> string) \<Rightarrow> string list \<Rightarrow> json option \<Rightarrow> js_error + json option" where
  "delete_dates render dates ar =
     (case ar of
        None \<Rightarrow> Inr None
      | Some (JArr es) \<Rightarrow>
          (let kept = filter (\<lambda>r. ne_any (arrow_text render r ''date'') dates) es
           in Inr (if kept = [] then None else Some (JArr kept)))
      | Some _ \<Rightarrow> Inl (Error ''cannot extract elements from a scalar''))"

text \<open>An UPDATE whose SET expression can fail stops at the first row that fails.\<close>

fun update_rows ::
  "(profile_row \<Rightarrow> js_error + profile_row) \<Rightarrow> profile_row list \<Rightarrow> js_error + profile_row list" where
  "update_rows f [] = Inr []"
| "update_rows f (p # ps) =
     (case f p of
        Inl e \<Rightarrow> Inl e
      | Inr p' \<Rightarrow> (case update_rows f ps of Inl e \<Rightarrow> Inl e | Inr ps' \<Rightarrow> Inr (p' # ps')))"

definition is_user :: "string option \<Rightarrow> user_row \<Rightarrow> bool" where
  "is_user uid u = sql_eq (Some (u_id u)) uid"

definition is_profile :: "string option \<Rightarrow> profile_row \<Rightarrow> bool" where
  "is_profile uid p = sql_eq (Some (p_user_id p)) uid"

definition left_join :: "database \<Rightarrow> string option \<Rightarrow> json list" where
  "left_join d uid =
     concat (map (\<lambda>u. case filter (\<lambda>p. p_user_id p = u_id u) (user_profiles d) of
                          [] \<Rightarrow> [joined_row u None]
                        | ps \<Rightarrow> map (\<lambda>p. joined_row u (Some p)) ps)
                 (filter (is_user uid) (users d)))"

definition inner_join :: "database \<Rightarrow> string option \<Rightarrow> json list" where
  "inner_join d uid =
     concat (map (\<lambda>u. map (\<lambda>p. joined_row u (Some p))
                          (filter (\<lambda>p. p_user_id p = u_id u) (user_profiles d)))
                 (filter (is_user uid) (users d)))"

text \<open>
  Modelled from the spec: the foreign key of \<^verbatim>\<open>user_profiles.user_id\<close> to \<^verbatim>\<open>users.id\<close>
  (the schema is not among the sources). Section 3 has no profile without its user
  (\<^verbatim>\<open>foreign-key + creation ordering\<close>), so an INSERT into \<^verbatim>\<open>user_profiles\<close> for an id with
  no row in \<^verbatim>\<open>users\<close> is an error and inserts nothing.
\<close>

definition foreign_key_error :: js_error where
  "foreign_key_error =
     Error ''insert or update on table user_profiles violates foreign key constraint''"

text \<open>
  What each statement returns (its rows) and does to the tables. \<open>now\<close> is
  \<^verbatim>\<open>CURRENT_TIMESTAMP\<close>. The transaction commands change no table; the connection
  gives them their meaning (\<open>client_query\<close> below).
\<close>

fun exec_stmt ::
  "(json \<Rightarrow> string) \<Rightarrow> nat \<Rightarrow> stmt \<Rightarrow> database \<Rightarrow> js_error + (json list \<times> database)" where
  "exec_stmt render now BEGIN d = Inr ([], d)"
| "exec_stmt render now COMMIT d = Inr ([], d)"
| "exec_stmt render now ROLLBACK d = Inr ([], d)"
| "exec_stmt render now (SelectProfileLeftJoin uid) d = Inr (left_join d uid, d)"
| "exec_stmt render now (InsertUser uid e dn) d =
     (case uid of
        None \<Rightarrow> Inl (Error ''null value in column id violates not-null constraint'')
      | Some i \<Rightarrow>
          if list_ex (\<lambda>u. u_id u = i) (users d) then Inr ([], d)
          else Inr ([], d\<lparr>users := users d @ [new_user i e dn now]\<rparr>))"
| "exec_stmt render now (InsertProfile uid) d =
     (case uid of
        None \<Rightarrow> Inl (Error ''null value in column user_id violates not-null constraint'')
      | Some i \<Rightarrow>
          if list_ex (\<lambda>p. p_user_id p = i) (user_profiles d) then Inr ([], d)
          else if \<not> list_ex (\<lambda>u. u_id u = i) (users d) then Inl foreign_key_error
          else Inr ([], d\<lparr>user_profiles := user_profiles d @ [new_profile i now]\<rparr>))"
| "exec_stmt render now (UpdateUser cid dn uid) d =
     Inr ([], d\<lparr>users :=
            map (\<lambda>u. if is_user uid u
                      then u\<lparr>u_custom_user_id := cid, u_display_name := dn, u_updated_at := now\<rparr>
                      else u) (users d)\<rparr>)"
| "exec_stmt render now (UpdateProfile mj ins uid) d =
     Inr ([], d\<lparr>user_profiles :=
            map (\<lambda>p. if is_profile uid p
                      then p\<lparr>p_major := mj, p_interests := ins, p_updated_at := now\<rparr>
                      else p) (user_profiles d)\<rparr>)"
| "exec_stmt render now (SelectProfileJoin uid) d = Inr (inner_join d uid, d)"
| "exec_stmt render now (SelectProfileExists uid) d =
     Inr (map (\<lambda>p. JObj [(''?column?'', JNum 1)]) (filter (is_profile uid) (user_profiles d)), d)"
| "exec_stmt render now (InsertAssessment uid rs) d =
     (case uid of
        None \<Rightarrow> Inl (Error ''null value in column user_id violates not-null constraint'')
      | Some i \<Rightarrow>
          if list_ex (\<lambda>p. p_user_id p = i) (user_profiles d)
          then Inl (Error ''duplicate key value violates unique constraint'')
          else if \<not> list_ex (\<lambda>u. u_id u = i) (users d) then Inl foreign_key_error
          else (let p = (new_profile i now)\<lparr>p_assessment_results := rs, p_completed_assessments := 1\<rparr>
                in Inr ([profile_json p], d\<lparr>user_profiles := user_profiles d @ [p]\<rparr>)))"
| "exec_stmt render now (UpdateAssessment rs uid) d =
     (let ps = map (\<lambda>p. if is_profile uid p
                          then p\<lparr>p_assessment_results := rs,
                                 p_completed_assessments := p_completed_assessments p + 1,
                                 p_updated_at := now\<rparr>
                          else p) (user_profiles d)
      in Inr (map profile_json (filter (is_profile uid) ps), d\<lparr>user_profiles := ps\<rparr>))"
| "exec_stmt render now (DeleteAssessment dates n uid) d =
     (case update_rows
             (\<lambda>p. if is_profile uid p
                   then (case delete_dates render dates (p_assessment_results p) of
                           Inl e \<Rightarrow> Inl e
                         | Inr ar \<Rightarrow>
                             Inr (p\<lparr>p_assessment_results := ar,
                                    p_completed_assessments := p_completed_assessments p - int n,
                                    p_updated_at := now\<rparr>))
                   else Inr p)
             (user_profiles d) of
        Inl e \<Rightarrow> Inl e
      | Inr ps \<Rightarrow> Inr (map profile_json (filter (is_profile uid) ps), d\<lparr>user_profiles := ps\<rparr>))"
| "exec_stmt render now (SelectCustomIdTaken cid uid) d =
     Inr (map (\<lambda>u. JObj [(''id'', JStr (u_id u))])
              (filter (\<lambda>u. sql_eq (u_custom_user_id u) cid \<and> sql_ne (Some (u_id u)) uid) (users d)), d)"
| "exec_stmt render now (UpdateCustomId cid uid) d =
     (let us = map (\<lambda>u. if is_user uid u
                          then u\<lparr>u_custom_user_id := cid, u_updated_at := now\<rparr>
                          else u) (users d)
      in Inr (map user_json (filter (is_user uid) us), d\<lparr>users := us\<rparr>))"
| "exec_stmt render now (UpdatePhoto url uid) d =
     (let us = map (\<lambda>u. if is_user uid u then u\<lparr>u_photo_url := url\<rparr> else u) (users d)
      in Inr (map (\<lambda>u. JObj [(''photo_url'', text_json (u_photo_url u))]) (filter (is_user uid) us),
              d\<lparr>users := us\<rparr>))"
| "exec_stmt render now (SelectPhotoUrl uid) d =
     Inr (map (\<lambda>u. JObj [(''photo_url'', text_json (u_photo_url u))]) (filter (is_user uid) (users d)), d)"
| "exec_stmt render now (DeleteProfile uid) d =
     Inr ([], d\<lparr>user_profiles := filter (\<lambda>p. \<not> is_profile uid p) (user_profiles d)\<rparr>)"
| "exec_stmt render now (DeleteUserRow uid) d =
     Inr ([], d\<lparr>users := filter (\<lambda>u. \<not> is_user uid u) (users d)\<rparr>)"

section \<open>The world outside the controller\<close>

text \<open>
  Every call that leaves the process is a \<open>call\<close>. The world records them in order,
  each with whether it succeeded, and decides through \<open>faults\<close> which of them fail for
  a reason the tables do not show (a lost connection, a constraint of the schema, an
  unwritable directory): the \<open>n\<close>-th call raises \<open>e\<close> when \<open>faults n = Some e\<close>.

  \<open>db\<close> is the committed state; \<open>txn\<close> is the working copy of the transaction open on the
  checked-out client, if there is one. \<open>render\<close> is PostgreSQL's text of a jsonb value.
\<close>

datatype call =
    Connect
  | Release
  | PoolQuery stmt
  | ClientQuery stmt
  | ExistsSync string
  | MkdirSync string
  | Upload
  | Unlink string

record world =
  db :: database
  txn :: "database option"
  clock :: nat
  faults :: "nat \<Rightarrow> js_error option"
  calls :: nat
  trace :: "(call \<times> bool) list"
  files :: "string list"
  dirs :: "string list"
  NODE_ENV :: "string option"
  cwd :: string
  uuid :: string
  render :: "json \<Rightarrow> string"

type_synonym 'a io = "world \<Rightarrow> (js_error + 'a) \<times> world"

definition returnE :: "'a \<Rightarrow> 'a io" where
  "returnE x w = (Inr x, w)"

definition throwE :: "js_error \<Rightarrow> 'a io" where
  "throwE e w = (Inl e, w)"

definition bindE :: "'a io \<Rightarrow> ('a \<Rightarrow> 'b io) \<Rightarrow> 'b io" where
  "bindE m f w = (case m w of (Inl e, w') \<Rightarrow> (Inl e, w') | (Inr x, w') \<Rightarrow> f x w')"

text \<open>\<^verbatim>\<open>try { m } catch (err) { h err }\<close> and \<^verbatim>\<open>try { m } finally { fin }\<close>.\<close>

definition catchE :: "'a io \<Rightarrow> (js_error \<Rightarrow> 'a io) \<Rightarrow> 'a io" where
  "catchE m h w = (case m w of (Inl e, w') \<Rightarrow> h e w' | (Inr x, w') \<Rightarrow> (Inr x, w'))"

definition finallyE :: "'a io \<Rightarrow> unit io \<Rightarrow> 'a io" where
  "finallyE m fin w =
     (case m w of (r, w') \<Rightarrow>
        (case fin w' of (Inl e, w'') \<Rightarrow> (Inl e, w'') | (Inr _, w'') \<Rightarrow> (r, w'')))"

definition external :: "call \<Rightarrow> (world \<Rightarrow> js_error + ('a \<times> world)) \<Rightarrow> 'a io" where
  "external c act w =
     (case faults w (calls w) of
        Some e \<Rightarrow> (Inl e, w\<lparr>calls := Suc (calls w), trace := trace w @ [(c, False)]\<rparr>)
      | None \<Rightarrow>
          (case act w of
             Inl e \<Rightarrow> (Inl e, w\<lparr>calls := Suc (calls w), trace := trace w @ [(c, False)]\<rparr>)
           | Inr (x, w') \<Rightarrow>
               (Inr x, w'\<lparr>calls := Suc (calls w), trace := trace w @ [(c, True)]\<rparr>)))"

subsection \<open>The connection pool\<close>

text \<open>\<^verbatim>\<open>pool.query\<close>: one statement on a connection of its own, committed at once.\<close>

definition pool_query :: "stmt \<Rightarrow> json list io" where
  "pool_query s =
     external (PoolQuery s)
       (\<lambda>w. case exec_stmt (render w) (clock w) s (db w) of
               Inl e \<Rightarrow> Inl e
             | Inr (rows, d) \<Rightarrow> Inr (rows, w\<lparr>db := d\<rparr>))"

definition pool_connect :: "unit io" where
  "pool_connect = external Connect (\<lambda>w. Inr ((), w))"

text \<open>
  \<^verbatim>\<open>client.query\<close>: BEGIN opens the working copy, COMMIT makes it the committed
  state, ROLLBACK drops it; any other statement runs on the working copy when a
  transaction is open and on the committed state otherwise.
\<close>

definition client_query :: "stmt \<Rightarrow> json list io" where
  "client_query s =
     external (ClientQuery s)
       (\<lambda>w. case s of
               BEGIN \<Rightarrow> Inr ([], w\<lparr>txn := Some (case txn w of None \<Rightarrow> db w | Some d \<Rightarrow> d)\<rparr>)
             | COMMIT \<Rightarrow> Inr ([], (case txn w of None \<Rightarrow> w | Some d \<Rightarrow> w\<lparr>db := d, txn := None\<rparr>))
             | ROLLBACK \<Rightarrow> Inr ([], w\<lparr>txn := None\<rparr>)
             | _ \<Rightarrow>
                (case txn w of
                   None \<Rightarrow>
                     (case exec_stmt (render w) (clock w) s (db w) of
                        Inl e \<Rightarrow> Inl e
                      | Inr (rows, d) \<Rightarrow> Inr (rows, w\<lparr>db := d\<rparr>))
                 | Some t \<Rightarrow>
                     (case exec_stmt (render w) (clock w) s t of
                        Inl e \<Rightarrow> Inl e
                      | Inr (rows, d) \<Rightarrow> Inr (rows, w\<lparr>txn := Some d\<rparr>))))"

definition client_release :: "unit io" where
  "client_release w = (Inr (), w\<lparr>trace := trace w @ [(Release, True)]\<rparr>)"

subsection \<open>The file system\<close>

text \<open>\<^verbatim>\<open>path.join(process.cwd(), p)\<close> for a \<open>p\<close> that starts with a slash, as every
  \<^verbatim>\<open>photo_url\<close> the controller stores does.\<close>

definition path_join :: "string \<Rightarrow> string \<Rightarrow> string" where
  "path_join a b = a @ b"

definition unlink :: "string \<Rightarrow> unit io" where
  "unlink p =
     external (Unlink p)
       (\<lambda>w. if p \<in> set (files w) then Inr ((), w\<lparr>files := removeAll p (files w)\<rparr>)
             else Inl (Error ''ENOENT: no such file or directory''))"

definition existsSync :: "string \<Rightarrow> bool io" where
  "existsSync p w = (Inr (p \<in> set (dirs w) \<or> p \<in> set (files w)), w\<lparr>trace := trace w @ [(ExistsSync p, True)]\<rparr>)"

definition mkdirSync :: "string \<Rightarrow> unit io" where
  "mkdirSync p = external (MkdirSync p) (\<lambda>w. Inr ((), w\<lparr>dirs := dirs w @ [p]\<rparr>))"

section \<open>JavaScript helpers\<close>

text \<open>
  A string is its list of code units, of which the model has the first 256. Below that
  bound \<^verbatim>\<open>String.prototype.trim\<close> strips tab, line feed, vertical tab, form feed,
  carriage return, space and the no-break space.
\<close>

definition is_space :: "char \<Rightarrow> bool" where
  "is_space c = (of_char c \<in> {9, 10, 11, 12, 13, 32, 160 :: nat})"

definition trim :: "string \<Rightarrow> string" where
  "trim s = rev (dropWhile is_space (rev (dropWhile is_space s)))"

text \<open>\<^verbatim>\<open>s.split(c)\<close> for a separator of one character; the result is never empty.\<close>

fun split :: "char \<Rightarrow> string \<Rightarrow> string list" where
  "split c [] = [[]]"
| "split c (x # xs) =
     (if x = c then [] # split c xs
      else (case split c xs of [] \<Rightarrow> [[x]] | y # ys \<Rightarrow> (x # y) # ys))"

text \<open>\<^verbatim>\<open>xs[0]\<close>, \<^verbatim>\<open>undefined\<close> on an empty array.\<close>

definition index0 :: "'a list \<Rightarrow> 'a option" where
  "index0 xs = (case xs of [] \<Rightarrow> None | x # _ \<Rightarrow> Some x)"

text \<open>Truthiness of a value that is a string or absent: \<^verbatim>\<open>undefined\<close>, \<^verbatim>\<open>null\<close> and the
  empty string are falsy.\<close>

definition truthy :: "string option \<Rightarrow> bool" where
  "truthy v = (case v of None \<Rightarrow> False | Some s \<Rightarrow> s \<noteq> [])"

text \<open>\<^verbatim>\<open>v || null\<close>.\<close>

definition or_null :: "string option \<Rightarrow> string option" where
  "or_null v = (if truthy v then v else None)"

text \<open>\<^verbatim>\<open>row?.name\<close> read as a string: a row of the driver holds a string or null there.\<close>

definition member_text :: "json option \<Rightarrow> string \<Rightarrow> string option" where
  "member_text row k =
     (case row of
        Some (JObj kvs) \<Rightarrow> (case map_of kvs k of Some (JStr s) \<Rightarrow> Some s | _ \<Rightarrow> None)
      | _ \<Rightarrow> None)"

text \<open>\<^verbatim>\<open>/^[a-zA-Z0-9_]{1,30}$/.test(username)\<close>; without the \<^verbatim>\<open>m\<close> flag the anchors are
  the two ends of the string.\<close>

definition is_word_char :: "char \<Rightarrow> bool" where
  "is_word_char c =
     (let n = (of_char c :: nat)
      in (97 \<le> n \<and> n \<le> 122) \<or> (65 \<le> n \<and> n \<le> 90) \<or> (48 \<le> n \<and> n \<le> 57) \<or> n = 95)"

definition username_format :: "string \<Rightarrow> bool" where
  "username_format s = (1 \<le> length s \<and> length s \<le> 30 \<and> list_all is_word_char s)"

text \<open>\<^verbatim>\<open>path.extname\<close>: from the last dot of the last path segment, empty when that
  segment has no dot or only a leading one.\<close>

definition basename :: "string \<Rightarrow> string" where
  "basename s = rev (takeWhile (\<lambda>c. c \<noteq> CHR ''/'') (rev s))"

definition extname :: "string \<Rightarrow> string" where
  "extname s =
     (let b = basename s; suffix = takeWhile (\<lambda>c. c \<noteq> CHR ''.'') (rev b)
      in if CHR ''.'' \<notin> set b \<or> b = ''..'' then []
         else if drop (Suc (length suffix)) (rev b) = [] then []
         else CHR ''.'' # rev suffix)"

section \<open>Requests and responses\<close>

text \<open>
  \<^verbatim>\<open>req.user\<close> is what the auth middleware attached. The members of \<^verbatim>\<open>req.body\<close> have
  the types of the interface (spec, section 6): a handle, a name and a major are strings,
  \<^verbatim>\<open>interests\<close> and \<^verbatim>\<open>dates\<close> are arrays of strings, \<^verbatim>\<open>results\<close> is any JSON value;
  \<open>None\<close> is a member that is absent or null.
\<close>

record auth_user =
  uid :: string
  email :: "string option"

record req_body =
  major :: "string option"
  interests :: "string list option"
  custom_user_id :: "string option"
  display_name :: "string option"
  results :: "json option"
  dates :: "string list option"

record upload_file =
  originalname :: string
  mimetype :: string
  file_size :: nat

record request =
  user :: "auth_user option"
  body :: req_body
  query_custom_user_id :: "string option"
  params_username :: string
  file_part :: "upload_file option"

text \<open>\<^verbatim>\<open>res.status(n).json(x)\<close>; \<^verbatim>\<open>res.json(undefined)\<close> sends no JSON text (\<open>None\<close>).\<close>

record response =
  status :: nat
  json_body :: "json option"

definition res_status_json :: "nat \<Rightarrow> json option \<Rightarrow> response" where
  "res_status_json n x = \<lparr>status = n, json_body = x\<rparr>"

definition res_json :: "json option \<Rightarrow> response" where
  "res_json x = res_status_json 200 x"

definition error_body :: "string \<Rightarrow> json option" where
  "error_body m = Some (JObj [(''error'', JStr m)])"

definition userId_of :: "request \<Rightarrow> string option" where
  "userId_of req = map_option uid (user req)"

section \<open>The error middleware\<close>

definition errorHandler :: "js_error \<Rightarrow> world \<Rightarrow> response" where
  "errorHandler err w =
     (let code = (case statusCode err of None \<Rightarrow> 500 | Some n \<Rightarrow> if n = 0 then 500 else n)
      in res_status_json code
           (Some (JObj [(''error'',
              JObj ([(''message'', JStr (if message err = [] then ''Internal Server Error'' else message err))]
                    @ (if NODE_ENV w = Some ''development''
                       then (case stack err of None \<Rightarrow> [] | Some s \<Rightarrow> [(''stack'', JStr s)])
                       else [])))])))"

section \<open>The upload middleware\<close>

definition allowedTypes :: "string list" where
  "allowedTypes = [''image/jpeg'', ''image/png'', ''image/gif'']"

definition fileFilter :: "upload_file \<Rightarrow> js_error + bool" where
  "fileFilter file =
     (if mimetype file \<in> set allowedTypes then Inr True
      else Inl (Error ''Invalid file type. Only JPEG, PNG and GIF are allowed.''))"

definition filename :: "world \<Rightarrow> upload_file \<Rightarrow> string" where
  "filename w file = uuid w @ extname (originalname file)"

text \<open>
  \<^verbatim>\<open>multer({storage, fileFilter, limits}).single('photo')\<close>: no part named
  \<^verbatim>\<open>photo\<close> leaves \<^verbatim>\<open>req.file\<close> undefined; a part is filtered, held to 5 MiB and
  written under the destination with the generated name, which is the result.
\<close>

definition upload :: "request \<Rightarrow> string option io" where
  "upload req =
     external Upload
       (\<lambda>w. case file_part req of
               None \<Rightarrow> Inr (None, w)
             | Some file \<Rightarrow>
                 (case fileFilter file of
                    Inl e \<Rightarrow> Inl e
                  | Inr _ \<Rightarrow>
                      if file_size file > 5 * 1024 * 1024 then Inl (Error ''File too large'')
                      else Inr (Some (filename w file),
                                w\<lparr>files := files w @
                                    [path_join (cwd w) (''/uploads/profile-photos/'' @ filename w file)]\<rparr>)))"

section \<open>The profile controller\<close>

definition getProfile :: "request \<Rightarrow> response io" where
  "getProfile req =
     (let userId = userId_of req;
          email = Option.bind (user req) email
      in catchE
           (bindE pool_connect (\<lambda>client.
              finallyE
                (catchE
                   (bindE (client_query (SelectProfileLeftJoin userId)) (\<lambda>result.
                      if length result = 0 then
                        bindE (client_query BEGIN) (\<lambda>_.
                        bindE (client_query
                                 (InsertUser userId email
                                    (Option.bind email (\<lambda>e. index0 (split CHR ''@'' e))))) (\<lambda>_.
                        bindE (client_query (InsertProfile userId)) (\<lambda>_.
                        bindE (client_query (SelectProfileLeftJoin userId)) (\<lambda>newResult.
                        bindE (client_query COMMIT) (\<lambda>_.
                        returnE (res_json (index0 newResult)))))))
                      else returnE (res_json (index0 result))))
                   (\<lambda>err. bindE (client_query ROLLBACK) (\<lambda>_. throwE err)))
                client_release))
           (\<lambda>err. returnE (res_status_json 500 (error_body ''Failed to fetch profile''))))"

definition updateProfile :: "request \<Rightarrow> response io" where
  "updateProfile req =
     (let userId = userId_of req;
          b = body req
      in catchE
           (case display_name b of
              None \<Rightarrow> returnE (res_status_json 400 (error_body ''Display name is required''))
            | Some dn \<Rightarrow>
                if \<not> truthy (Some dn) \<or> length (trim dn) = 0
                then returnE (res_status_json 400 (error_body ''Display name is required''))
                else
                  bindE pool_connect (\<lambda>client.
                    finallyE
                      (catchE
                         (bindE (client_query BEGIN) (\<lambda>_.
                          bindE (client_query
                                   (UpdateUser (or_null (custom_user_id b)) (Some (trim dn)) userId)) (\<lambda>_.
                          bindE (client_query
                                   (UpdateProfile (or_null (major b))
                                      (case interests b of None \<Rightarrow> [] | Some xs \<Rightarrow> xs) userId)) (\<lambda>_.
                          bindE (client_query (SelectProfileJoin userId)) (\<lambda>result.
                          bindE (client_query COMMIT) (\<lambda>_.
                          returnE (res_json (index0 result))))))))
                         (\<lambda>err. bindE (client_query ROLLBACK) (\<lambda>_. throwE err)))
                      client_release))
           (\<lambda>err. returnE (res_status_json 500 (error_body (message err)))))"

definition updateAssessment :: "request \<Rightarrow> response io" where
  "updateAssessment req =
     (let userId = userId_of req;
          results = results (body req)
      in catchE
           (bindE (pool_query (SelectProfileExists userId)) (\<lambda>profileCheck.
              if length profileCheck = 0 then
                bindE (pool_query (InsertAssessment userId results)) (\<lambda>newProfile.
                returnE (res_json (index0 newProfile)))
              else
                bindE (pool_query (UpdateAssessment results userId)) (\<lambda>result.
                returnE (res_json (index0 result)))))
           (\<lambda>err. returnE (res_status_json 500 (error_body ''Failed to update assessment''))))"

text \<open>\<^verbatim>\<open>dates.length\<close> of an absent \<^verbatim>\<open>dates\<close> is a TypeError, raised inside the
  \<^verbatim>\<open>try\<close>; the \<^verbatim>\<open>catch\<close> logs and throws again.\<close>

definition deleteAssessmentResults :: "request \<Rightarrow> response io" where
  "deleteAssessmentResults req =
     (let userId = userId_of req
      in catchE
           (case dates (body req) of
              None \<Rightarrow> throwE (Error ''Cannot read properties of undefined (reading 'length')'')
            | Some ds \<Rightarrow>
                bindE (pool_query (DeleteAssessment ds (length ds) userId)) (\<lambda>result.
                if length result = 0
                then returnE (res_status_json 404 (error_body ''Profile not found''))
                else returnE (res_json (index0 result))))
           (\<lambda>err. throwE err))"

definition updateCustomId :: "request \<Rightarrow> response io" where
  "updateCustomId req =
     (let userId = userId_of req;
          custom_user_id = custom_user_id (body req)
      in catchE
           (bindE (pool_query (SelectCustomIdTaken custom_user_id userId)) (\<lambda>existingUser.
              if length existingUser > 0
              then returnE (res_status_json 400 (error_body ''This user ID is already taken''))
              else
                bindE (pool_query (UpdateCustomId custom_user_id userId)) (\<lambda>result.
                returnE (res_json (index0 result)))))
           (\<lambda>err w.
              returnE (res_status_json 500
                (Some (JObj ([(''error'', JStr ''Failed to update user ID'')]
                             @ (if NODE_ENV w = Some ''development''
                                then [(''details'', JStr (message err))] else [])))))
                w))"

definition checkCustomId :: "request \<Rightarrow> response io" where
  "checkCustomId req =
     (let userId = userId_of req;
          custom_user_id = query_custom_user_id req
      in catchE
           (if \<not> truthy custom_user_id
            then returnE (res_json (Some (JObj [(''available'', JBool True)])))
            else
              bindE (pool_query (SelectCustomIdTaken custom_user_id userId)) (\<lambda>result.
              returnE (res_json (Some (JObj [(''available'', JBool (length result = 0))])))))
           (\<lambda>err. returnE (res_status_json 500 (error_body ''Failed to check custom ID availability''))))"

definition updateProfilePhoto :: "request \<Rightarrow> response io" where
  "updateProfilePhoto req =
     (let userId = userId_of req
      in (\<lambda>w.
           (let uploadsDir = path_join (cwd w) ''/uploads/profile-photos''
            in bindE (existsSync uploadsDir) (\<lambda>ex.
               bindE (if \<not> ex then mkdirSync uploadsDir else returnE ()) (\<lambda>_.
               catchE
                 (bindE (upload req) (\<lambda>file.
                    case file of
                      None \<Rightarrow> returnE (res_status_json 400 (error_body ''No file uploaded''))
                    | Some name \<Rightarrow>
                        (let photoUrl = ''/uploads/profile-photos/'' @ name
                         in catchE
                              (bindE (pool_query (UpdatePhoto (Some photoUrl) userId)) (\<lambda>_.
                               returnE (res_json (Some (JObj [(''photo_url'', JStr photoUrl)])))))
                              (\<lambda>error. returnE (res_status_json 500
                                                  (error_body ''Failed to update profile photo''))))))
                 (\<lambda>err. returnE (res_status_json 400 (error_body (message err))))))) w))"

definition deleteUser :: "request \<Rightarrow> response io" where
  "deleteUser req =
     (let userId = userId_of req
      in if \<not> truthy userId then returnE (res_status_json 401 (error_body ''Unauthorized''))
         else
           bindE pool_connect (\<lambda>client.
             finallyE
               (catchE
                  (bindE (client_query BEGIN) (\<lambda>_.
                   bindE (client_query (SelectPhotoUrl userId)) (\<lambda>userResult.
                   let photoUrl = member_text (index0 userResult) ''photo_url'' in
                   bindE (client_query (DeleteProfile userId)) (\<lambda>_.
                   bindE (client_query (DeleteUserRow userId)) (\<lambda>_.
                   bindE (client_query COMMIT) (\<lambda>_. (\<lambda>w.
                   bindE (case photoUrl of
                            None \<Rightarrow> returnE ()
                          | Some url \<Rightarrow>
                              if truthy (Some url)
                              then catchE (unlink (path_join (cwd w) url)) (\<lambda>photoErr. returnE ())
                              else returnE ()) (\<lambda>_.
                   returnE (res_status_json 200
                              (Some (JObj [(''message'', JStr ''User deleted successfully'')])))) w)))))))
                  (\<lambda>err. bindE (client_query ROLLBACK) (\<lambda>_.
                          returnE (res_status_json 500 (error_body (message err))))))
               client_release))"

definition checkUsername :: "request \<Rightarrow> response io" where
  "checkUsername req =
     (let username = params_username req;
          userId = userId_of req
      in catchE
           (if \<not> username_format username
            then returnE (res_status_json 400
                   (Some (JObj [(''available'', JBool False), (''error'', JStr ''Invalid username format'')])))
            else
              bindE pool_connect (\<lambda>client.
                finallyE
                  (bindE (client_query (SelectCustomIdTaken (Some username) userId)) (\<lambda>result.
                   returnE (res_json (Some (JObj [(''available'', JBool (length result = 0))])))))
                  client_release))
           (\<lambda>error. returnE (res_status_json 500 (error_body ''Failed to check username availability''))))"

text \<open>The object \<^verbatim>\<open>profileController\<close>: its nine methods by name.\<close>

datatype operation =
    GetProfileOp
  | UpdateProfileOp
  | UpdateAssessmentOp
  | DeleteAssessmentResultsOp
  | UpdateCustomIdOp
  | CheckCustomIdOp
  | UpdateProfilePhotoOp
  | DeleteUserOp
  | CheckUsernameOp

fun profileController :: "operation \<Rightarrow> request \<Rightarrow> response io" where
  "profileController GetProfileOp = getProfile"
| "profileController UpdateProfileOp = updateProfile"
| "profileController UpdateAssessmentOp = updateAssessment"
| "profileController DeleteAssessmentResultsOp = deleteAssessmentResults"
| "profileController UpdateCustomIdOp = updateCustomId"
| "profileController CheckCustomIdOp = checkCustomId"
| "profileController UpdateProfilePhotoOp = updateProfilePhoto"
| "profileController DeleteUserOp = deleteUser"
| "profileController CheckUsernameOp = checkUsername"

section \<open>Failure paths\<close>

text \<open>
  The calls a request added to the trace; whether one of them failed, the
  \<^verbatim>\<open>unlink\<close> that \<open>deleteUser\<close> swallows apart; whether a call to the database failed;
  whether a response carries an \<^verbatim>\<open>error\<close> member.
\<close>

fun is_db_call :: "call \<Rightarrow> bool" where
  "is_db_call Connect = True"
| "is_db_call (PoolQuery s) = True"
| "is_db_call (ClientQuery s) = True"
| "is_db_call c = False"

fun is_unlink :: "call \<Rightarrow> bool" where
  "is_unlink (Unlink p) = True"
| "is_unlink c = False"

definition failed_call :: "(call \<times> bool) list \<Rightarrow> bool" where
  "failed_call tr = list_ex (\<lambda>(c, ok). \<not> ok \<and> \<not> is_unlink c) tr"

definition failed_db_call :: "(call \<times> bool) list \<Rightarrow> bool" where
  "failed_db_call tr = list_ex (\<lambda>(c, ok). \<not> ok \<and> is_db_call c) tr"

definition new_trace :: "world \<Rightarrow> world \<Rightarrow> (call \<times> bool) list" where
  "new_trace w w' = drop (length (trace w)) (trace w')"

definition has_error :: "response \<Rightarrow> bool" where
  "has_error resp =
     (case json_body resp of Some (JObj kvs) \<Rightarrow> map_of kvs ''error'' \<noteq> None | _ \<Rightarrow> False)"

text \<open>
  What holds of a handler's outcome on a failure: when the handler answers, a response
  other than a 200, or one after a failed call, has an \<^verbatim>\<open>error\<close> member; and after
  a failed database call the committed tables are the ones before the request. When the
  handler ends with an exception (\<open>Inl\<close>) it has written no response: the application
  (\<^verbatim>\<open>app.ts\<close>) mounts the routes and registers no error middleware after them, so
  nothing in the sources answers for it, and the first part says nothing there.
\<close>

definition failure_contract :: "world \<Rightarrow> (js_error + response) \<times> world \<Rightarrow> bool" where
  "failure_contract w out =
     (case out of (r, w') \<Rightarrow>
        (case r of
           Inl e \<Rightarrow> True
         | Inr resp \<Rightarrow> (status resp \<noteq> 200 \<or> failed_call (new_trace w w')) \<longrightarrow> has_error resp)
        \<and> (failed_db_call (new_trace w w') \<longrightarrow> db w' = db w))"

text \<open>Whether a handler wrote a response, or ended with an exception.\<close>

definition answered :: "(js_error + response) \<times> world \<Rightarrow> bool" where
  "answered out = (case fst out of Inl e \<Rightarrow> False | Inr resp \<Rightarrow> True)"

section \<open>Example data\<close>

definition entry :: "string \<Rightarrow> int \<Rightarrow> json" where
  "entry d s = JObj [(''date'', JStr d), (''score'', JNum s)]"

definition alice :: user_row where
  "alice = \<lparr>u_id = ''u1'', u_email = Some ''alice@example.org'', u_display_name = Some ''Alice'',
            u_photo_url = Some ''/uploads/profile-photos/a.png'', u_custom_user_id = Some ''alice_1'',
            u_updated_at = 7\<rparr>"

definition bob :: user_row where
  "bob = \<lparr>u_id = ''u2'', u_email = Some ''bob@example.org'', u_display_name = Some ''Bob'',
          u_photo_url = None, u_custom_user_id = Some ''bob'', u_updated_at = 8\<rparr>"

definition alice_profile :: profile_row where
  "alice_profile =
     \<lparr>p_user_id = ''u1'', p_major = Some ''Physics'', p_interests = [''chess''],
      p_completed_assessments = 3,
      p_assessment_results =
        Some (JArr [entry ''2024-01-01'' 10, entry ''2024-01-02'' 20, entry ''2024-01-03'' 30]),
      p_updated_at = 9\<rparr>"

definition db0 :: database where
  "db0 = \<lparr>users = [alice, bob], user_profiles = [alice_profile]\<rparr>"

definition world0 :: world where
  "world0 = \<lparr>db = db0, txn = None, clock = 100, faults = (\<lambda>_. None), calls = 0, trace = [],
             files = [''/srv/uploads/profile-photos/a.png''], dirs = [], NODE_ENV = None,
             cwd = ''/srv'', uuid = ''0b5e'', render = (\<lambda>_. [])\<rparr>"

definition no_body :: req_body where
  "no_body = \<lparr>major = None, interests = None, custom_user_id = None, display_name = None,
              results = None, dates = None\<rparr>"

definition request_of :: "string \<Rightarrow> string \<Rightarrow> req_body \<Rightarrow> request" where
  "request_of i e b =
     \<lparr>user = Some \<lparr>uid = i, email = Some e\<rparr>, body = b, query_custom_user_id = None,
      params_username = [], file_part = None\<rparr>"

text \<open>The same world with an uploads directory that cannot be written: the seventh
  call, the \<^verbatim>\<open>unlink\<close> of \<open>deleteUser\<close>, fails.\<close>

definition world_unwritable :: world where
  "world_unwritable =
     world0\<lparr>faults := (\<lambda>n. if n = 6 then Some (Error ''EACCES: permission denied'') else None)\<rparr>"

text \<open>The same world with a database that fails the first call.\<close>

definition world_query_fails :: world where
  "world_query_fails =
     world0\<lparr>faults := (\<lambda>n. if n = 0 then Some (Error ''connection terminated'') else None)\<rparr>"

section \<open>Properties\<close>

lemmas io_defs = returnE_def throwE_def bindE_def catchE_def finallyE_def external_def
  pool_query_def pool_connect_def client_query_def client_release_def

lemmas example_defs = world0_def db0_def alice_def bob_def alice_profile_def entry_def no_body_def
  request_of_def

lemma trim_blank: "list_all is_space s \<Longrightarrow> trim s = []"
  by (auto simp: trim_def list_all_iff dest: set_dropWhileD)

lemma sql_eq_Some [simp]:
  "sql_eq a (Some y) \<longleftrightarrow> a = Some y"
  "sql_eq (Some x) b \<longleftrightarrow> b = Some x"
  by (auto simp: sql_eq_def split: option.splits)

lemma sql_ne_Some [simp]:
  "sql_ne (Some x) (Some y) \<longleftrightarrow> x \<noteq> y"
  "sql_ne a None = False"
  "sql_ne None b = False"
  by (auto simp: sql_ne_def split: option.splits)

subsection \<open>updateProfile: validation\<close>

text \<open>
  C3. When \<^verbatim>\<open>display_name\<close> is absent, or is a string of white space only (the empty
  string included), \<open>updateProfile\<close> answers 400 with
  \<^verbatim>\<open>{error: 'Display name is required'}\<close> and the world after the call is the world
  before it: no connection is taken, no statement is sent, and both tables, the open
  transaction and the trace are what they were.
\<close>

theorem updateProfile_rejects_blank_display_name:
  assumes "case display_name (body req) of None \<Rightarrow> True | Some dn \<Rightarrow> list_all is_space dn"
  shows "updateProfile req w =
           (Inr (res_status_json 400 (error_body ''Display name is required'')), w)"
  using assms
  by (auto simp: updateProfile_def io_defs trim_blank split: option.splits)

theorem updateProfile_rejects_blank_display_name_witness:
  "list_all is_space ''  '' \<and>
   updateProfile (request_of ''u1'' ''alice@example.org'' (no_body\<lparr>display_name := Some ''  ''\<rparr>)) world0 =
     (Inr \<lparr>status = 400, json_body = Some (JObj [(''error'', JStr ''Display name is required'')])\<rparr>,
      world0)"
  using updateProfile_rejects_blank_display_name
          [of "request_of ''u1'' ''alice@example.org'' (no_body\<lparr>display_name := Some ''  ''\<rparr>)" world0]
  by (simp add: example_defs is_space_def res_status_json_def error_body_def)

subsection \<open>checkUsername\<close>

text \<open>
  C7. A username that is not 1 to 30 characters of \<^verbatim>\<open>[a-zA-Z0-9_]\<close> gets 400 with
  \<^verbatim>\<open>{available: false, error: 'Invalid username format'}\<close> and the world is unchanged:
  no connection, no lookup. A username of that format, for an authenticated user, with
  no transaction open and no failing call, gets \<^verbatim>\<open>{available: b}\<close> where \<open>b\<close> holds
  exactly when no row of \<^verbatim>\<open>users\<close> with another id has the username as its
  \<^verbatim>\<open>custom_user_id\<close>; the calls are connect, the one SELECT and release.
\<close>

theorem checkUsername_format_then_lookup:
  "(\<not> username_format (params_username req) \<longrightarrow>
      checkUsername req w =
        (Inr (res_status_json 400
               (Some (JObj [(''available'', JBool False), (''error'', JStr ''Invalid username format'')]))),
         w))
   \<and> (username_format (params_username req) \<and> user req = Some a \<and> faults w = (\<lambda>_. None) \<and> txn w = None \<longrightarrow>
      checkUsername req w =
        (Inr (res_json (Some (JObj [(''available'',
                JBool (\<not> list_ex (\<lambda>u. u_custom_user_id u = Some (params_username req) \<and> u_id u \<noteq> uid a)
                              (users (db w))))]))),
         w\<lparr>calls := calls w + 2,
           trace := trace w @ [(Connect, True),
                               (ClientQuery (SelectCustomIdTaken (Some (params_username req)) (Some (uid a))), True),
                               (Release, True)]\<rparr>))"
  by (auto simp: checkUsername_def io_defs userId_of_def Let_def list_ex_iff filter_empty_conv)

theorem checkUsername_format_then_lookup_witness:
  "\<not> username_format ''ab cd'' \<and>
   fst (checkUsername ((request_of ''u1'' ''alice@example.org'' no_body)\<lparr>params_username := ''ab cd''\<rparr>) world0) =
     Inr \<lparr>status = 400,
          json_body = Some (JObj [(''available'', JBool False), (''error'', JStr ''Invalid username format'')])\<rparr>
   \<and> trace (snd (checkUsername ((request_of ''u1'' ''alice@example.org'' no_body)\<lparr>params_username := ''ab cd''\<rparr>) world0)) = []
   \<and> username_format ''bob'' \<and>
   fst (checkUsername ((request_of ''u1'' ''alice@example.org'' no_body)\<lparr>params_username := ''bob''\<rparr>) world0) =
     Inr \<lparr>status = 200, json_body = Some (JObj [(''available'', JBool False)])\<rparr>"
  using checkUsername_format_then_lookup
          [of "(request_of ''u1'' ''alice@example.org'' no_body)\<lparr>params_username := ''ab cd''\<rparr>" world0]
        checkUsername_format_then_lookup
          [of "(request_of ''u1'' ''alice@example.org'' no_body)\<lparr>params_username := ''bob''\<rparr>" world0
              "\<lparr>uid = ''u1'', email = Some ''alice@example.org''\<rparr>"]
  by (simp add: example_defs username_format_def is_word_char_def res_status_json_def res_json_def)

subsection \<open>getProfile: lazy creation\<close>

lemma index0_split: "index0 (split c s) = Some (takeWhile (\<lambda>x. x \<noteq> c) s)"
  by (induction s) (auto simp: index0_def split: list.splits)

lemma index0_simps: "index0 [] = None" "index0 (x # xs) = Some x"
  by (simp_all add: index0_def)

lemma left_join_fresh:
  "\<not> list_ex (\<lambda>u. u_id u = i) (users d) \<Longrightarrow> left_join d (Some i) = []"
  by (auto simp: left_join_def is_user_def list_ex_iff filter_empty_conv)

lemma left_join_created:
  "\<not> list_ex (\<lambda>u. u_id u = i) us \<Longrightarrow> \<not> list_ex (\<lambda>p. p_user_id p = i) ps \<Longrightarrow> u_id nu = i \<Longrightarrow> p_user_id np = i \<Longrightarrow>
   left_join (d\<lparr>users := us @ [nu], user_profiles := ps @ [np]\<rparr>) (Some i) = [joined_row nu (Some np)]"
  by (auto simp: left_join_def is_user_def list_ex_iff filter_empty_conv)

text \<open>The whole run of \<open>getProfile\<close> for a user with no row in either table, when no call fails.\<close>

lemma getProfile_fresh_run:
  assumes "user req = Some a" "faults w = (\<lambda>_. None)" "txn w = None"
    "\<not> list_ex (\<lambda>u. u_id u = uid a) (users (db w))"
    "\<not> list_ex (\<lambda>p. p_user_id p = uid a) (user_profiles (db w))"
  shows "getProfile req w =
    (Inr (res_json (Some (joined_row
            (new_user (uid a) (email a) (Option.bind (email a) (\<lambda>e. index0 (split CHR ''@'' e))) (clock w))
            (Some (new_profile (uid a) (clock w)))))),
      w\<lparr>db := \<lparr>users = users (db w) @
                   [new_user (uid a) (email a) (Option.bind (email a) (\<lambda>e. index0 (split CHR ''@'' e))) (clock w)],
               user_profiles = user_profiles (db w) @ [new_profile (uid a) (clock w)]\<rparr>,
        calls := calls w + 7,
        trace := trace w @ [(Connect, True), (ClientQuery (SelectProfileLeftJoin (Some (uid a))), True),
           (ClientQuery BEGIN, True),
           (ClientQuery (InsertUser (Some (uid a)) (email a) (Option.bind (email a) (\<lambda>e. index0 (split CHR ''@'' e)))), True),
           (ClientQuery (InsertProfile (Some (uid a))), True),
           (ClientQuery (SelectProfileLeftJoin (Some (uid a))), True),
           (ClientQuery COMMIT, True), (Release, True)]\<rparr>)"
proof -
  have nu: "u_id (new_user (uid a) e d n) = uid a" for e d n
    by (simp add: new_user_def)
  have np: "p_user_id (new_profile (uid a) n) = uid a" for n
    by (simp add: new_profile_def)
  have db: "d\<lparr>users := us, user_profiles := ps\<rparr> = \<lparr>users = us, user_profiles = ps\<rparr>" for d :: database and us ps
    by simp
  show ?thesis
    using assms
    by (simp add: getProfile_def io_defs userId_of_def left_join_fresh Let_def
        left_join_created [OF assms(4) assms(5) nu np] index0_simps nu)
qed

text \<open>
  C2. For an authenticated user with no row in \<^verbatim>\<open>users\<close> and none in \<^verbatim>\<open>user_profiles\<close>,
  with no transaction open and no failing call, \<open>getProfile\<close> answers 200 with the joined
  record of the new rows, in which \<^verbatim>\<open>completed_assessments\<close> is 0, \<^verbatim>\<open>interests\<close> is the
  empty array and \<^verbatim>\<open>assessment_results\<close> is null (the column defaults are those of the
  spec). Each table grows by exactly one row. The statements are the first SELECT, then
  BEGIN, the two INSERTs, the second SELECT and COMMIT, all on one client, which is
  released; no transaction stays open. Either INSERT, sent again with any values for the
  same id, is a no-op on the tables left behind (\<^verbatim>\<open>ON CONFLICT DO NOTHING\<close>).
\<close>

theorem getProfile_creates_fresh_profile:
  assumes "user req = Some a" and "faults w = (\<lambda>_. None)" and "txn w = None"
    and "\<not> list_ex (\<lambda>u. u_id u = uid a) (users (db w))"
    and "\<not> list_ex (\<lambda>p. p_user_id p = uid a) (user_profiles (db w))"
  shows "fst (getProfile req w) =
           Inr (res_json (Some (JObj
             [(''id'', JStr (uid a)),
              (''email'', text_json (email a)),
              (''display_name'', text_json (Option.bind (email a) (\<lambda>e. index0 (split CHR ''@'' e)))),
              (''photo_url'', JNull),
              (''custom_user_id'', JNull),
              (''major'', JNull),
              (''interests'', JArr []),
              (''completed_assessments'', JNum 0),
              (''assessment_results'', JNull)])))
         \<and> users (db (snd (getProfile req w))) =
             users (db w) @
               [new_user (uid a) (email a) (Option.bind (email a) (\<lambda>e. index0 (split CHR ''@'' e))) (clock w)]
         \<and> user_profiles (db (snd (getProfile req w))) =
             user_profiles (db w) @ [new_profile (uid a) (clock w)]
         \<and> txn (snd (getProfile req w)) = None
         \<and> trace (snd (getProfile req w)) =
             trace w @
               [(Connect, True),
                (ClientQuery (SelectProfileLeftJoin (Some (uid a))), True),
                (ClientQuery BEGIN, True),
                (ClientQuery (InsertUser (Some (uid a)) (email a)
                    (Option.bind (email a) (\<lambda>e. index0 (split CHR ''@'' e)))), True),
                (ClientQuery (InsertProfile (Some (uid a))), True),
                (ClientQuery (SelectProfileLeftJoin (Some (uid a))), True),
                (ClientQuery COMMIT, True),
                (Release, True)]
         \<and> exec_stmt r n (InsertUser (Some (uid a)) e' d') (db (snd (getProfile req w))) =
             Inr ([], db (snd (getProfile req w)))
         \<and> exec_stmt r n (InsertProfile (Some (uid a))) (db (snd (getProfile req w))) =
             Inr ([], db (snd (getProfile req w)))"
  using assms(3)
  by (simp add: getProfile_fresh_run [OF assms] joined_row_def new_user_def new_profile_def
      text_json_def jsonb_json_def)

theorem getProfile_creates_fresh_profile_witness:
  "\<not> list_ex (\<lambda>u. u_id u = ''u9'') (users (db world0))
   \<and> \<not> list_ex (\<lambda>p. p_user_id p = ''u9'') (user_profiles (db world0))
   \<and> fst (getProfile (request_of ''u9'' ''carol@example.org'' no_body) world0) =
       Inr \<lparr>status = 200, json_body = Some (JObj
             [(''id'', JStr ''u9''),
              (''email'', JStr ''carol@example.org''),
              (''display_name'', JStr ''carol''),
              (''photo_url'', JNull),
              (''custom_user_id'', JNull),
              (''major'', JNull),
              (''interests'', JArr []),
              (''completed_assessments'', JNum 0),
              (''assessment_results'', JNull)])\<rparr>
   \<and> length (users (db (snd (getProfile (request_of ''u9'' ''carol@example.org'' no_body) world0)))) = 3
   \<and> length (user_profiles (db (snd (getProfile (request_of ''u9'' ''carol@example.org'' no_body) world0)))) = 2"
  using getProfile_creates_fresh_profile
          [of "request_of ''u9'' ''carol@example.org'' no_body"
              "\<lparr>uid = ''u9'', email = Some ''carol@example.org''\<rparr>" world0]
  by (simp add: example_defs res_json_def res_status_json_def text_json_def index0_def)

text \<open>
  C10. On the same lazy-create path, when the authenticated user has an email address,
  the row inserted into \<^verbatim>\<open>users\<close> has as \<^verbatim>\<open>display_name\<close> the part of that address before
  its first \<^verbatim>\<open>@\<close> (the whole address when it has none), whatever the request body holds.
\<close>

theorem getProfile_display_name_is_email_local_part:
  assumes "user req = Some a" and "faults w = (\<lambda>_. None)" and "txn w = None"
    and "\<not> list_ex (\<lambda>u. u_id u = uid a) (users (db w))"
    and "\<not> list_ex (\<lambda>p. p_user_id p = uid a) (user_profiles (db w))"
    and "email a = Some e"
  shows "users (db (snd (getProfile req w))) =
           users (db w) @
             [\<lparr>u_id = uid a, u_email = Some e,
               u_display_name = Some (takeWhile (\<lambda>c. c \<noteq> CHR ''@'') e),
               u_photo_url = None, u_custom_user_id = None, u_updated_at = clock w\<rparr>]"
  using assms(6)
  by (simp add: getProfile_fresh_run [OF assms(1-5)] new_user_def index0_split)

theorem getProfile_display_name_is_email_local_part_witness:
  "\<not> list_ex (\<lambda>u. u_id u = ''u9'') (users (db world0))
   \<and> \<not> list_ex (\<lambda>p. p_user_id p = ''u9'') (user_profiles (db world0))
   \<and> users (db (snd (getProfile
        (request_of ''u9'' ''carol@example.org'' (no_body\<lparr>display_name := Some ''Dave''\<rparr>)) world0))) =
       [alice, bob,
        \<lparr>u_id = ''u9'', u_email = Some ''carol@example.org'', u_display_name = Some ''carol'',
         u_photo_url = None, u_custom_user_id = None, u_updated_at = 100\<rparr>]"
  using getProfile_display_name_is_email_local_part
          [of "request_of ''u9'' ''carol@example.org'' (no_body\<lparr>display_name := Some ''Dave''\<rparr>)"
              "\<lparr>uid = ''u9'', email = Some ''carol@example.org''\<rparr>" world0 "''carol@example.org''"]
  by (simp add: example_defs)

subsection \<open>updateProfile: the update\<close>

lemma trim_Nil: "trim [] = []"
  by (simp add: trim_def)

text \<open>The whole run of \<open>updateProfile\<close> for a display name that passes validation, when
  no call fails.\<close>

lemma updateProfile_run:
  assumes "user req = Some a" "faults w = (\<lambda>_. None)" "txn w = None"
    "display_name (body req) = Some dn" "trim dn \<noteq> []"
  shows "updateProfile req w =
    (Inr (res_json (index0 (inner_join
        ((db w)\<lparr>users := map (\<lambda>u. if u_id u = uid a
                  then u\<lparr>u_custom_user_id := or_null (custom_user_id (body req)),
                         u_display_name := Some (trim dn), u_updated_at := clock w\<rparr>
                  else u) (users (db w)),
            user_profiles := map (\<lambda>p. if p_user_id p = uid a
                  then p\<lparr>p_major := or_null (major (body req)),
                         p_interests := (case interests (body req) of None \<Rightarrow> [] | Some xs \<Rightarrow> xs),
                         p_updated_at := clock w\<rparr>
                  else p) (user_profiles (db w))\<rparr>) (Some (uid a))))),
     w\<lparr>db := (db w)\<lparr>users := map (\<lambda>u. if u_id u = uid a
                  then u\<lparr>u_custom_user_id := or_null (custom_user_id (body req)),
                         u_display_name := Some (trim dn), u_updated_at := clock w\<rparr>
                  else u) (users (db w)),
            user_profiles := map (\<lambda>p. if p_user_id p = uid a
                  then p\<lparr>p_major := or_null (major (body req)),
                         p_interests := (case interests (body req) of None \<Rightarrow> [] | Some xs \<Rightarrow> xs),
                         p_updated_at := clock w\<rparr>
                  else p) (user_profiles (db w))\<rparr>,
       calls := calls w + 6,
       trace := trace w @
         [(Connect, True), (ClientQuery BEGIN, True),
          (ClientQuery (UpdateUser (or_null (custom_user_id (body req))) (Some (trim dn)) (Some (uid a))), True),
          (ClientQuery (UpdateProfile (or_null (major (body req)))
             (case interests (body req) of None \<Rightarrow> [] | Some xs \<Rightarrow> xs) (Some (uid a))), True),
          (ClientQuery (SelectProfileJoin (Some (uid a))), True),
          (ClientQuery COMMIT, True), (Release, True)]\<rparr>)"
proof -
  have "dn \<noteq> []"
    using assms(5) trim_Nil by auto
  then show ?thesis
    using assms
    by (simp add: updateProfile_def io_defs userId_of_def Let_def truthy_def is_user_def is_profile_def)
qed

text \<open>
  C9. When \<^verbatim>\<open>display_name\<close> passes validation and \<^verbatim>\<open>custom_user_id\<close> is absent, null or
  the empty string, with no transaction open and no failing call, \<open>updateProfile\<close> writes
  NULL into \<^verbatim>\<open>custom_user_id\<close> of the user's row, whatever handle it held; the rows of
  other users are unchanged.
\<close>

theorem updateProfile_clears_custom_user_id:
  assumes "user req = Some a" and "faults w = (\<lambda>_. None)" and "txn w = None"
    and "display_name (body req) = Some dn" and "trim dn \<noteq> []"
    and "\<not> truthy (custom_user_id (body req))"
  shows "users (db (snd (updateProfile req w))) =
           map (\<lambda>u. if u_id u = uid a
                     then u\<lparr>u_custom_user_id := None, u_display_name := Some (trim dn),
                            u_updated_at := clock w\<rparr>
                     else u) (users (db w))
         \<and> list_all (\<lambda>u. u_id u = uid a \<longrightarrow> u_custom_user_id u = None)
             (users (db (snd (updateProfile req w))))"
  using assms(6)
  by (auto simp: updateProfile_run [OF assms(1-5)] or_null_def list_all_iff)

theorem updateProfile_clears_custom_user_id_witness:
  "trim ''Alice B'' \<noteq> [] \<and> \<not> truthy None
   \<and> users (db (snd (updateProfile
        (request_of ''u1'' ''alice@example.org'' (no_body\<lparr>display_name := Some ''Alice B''\<rparr>)) world0))) =
       [alice\<lparr>u_custom_user_id := None, u_display_name := Some ''Alice B'', u_updated_at := 100\<rparr>, bob]"
  using updateProfile_clears_custom_user_id
          [of "request_of ''u1'' ''alice@example.org'' (no_body\<lparr>display_name := Some ''Alice B''\<rparr>)"
              "\<lparr>uid = ''u1'', email = Some ''alice@example.org''\<rparr>" world0 "''Alice B''"]
  by (simp add: example_defs trim_def is_space_def truthy_def)

subsection \<open>updateAssessment\<close>

lemma is_user_Some: "is_user (Some i) = (\<lambda>u. u_id u = i)"
  by (auto simp: is_user_def)

lemma is_profile_Some: "is_profile (Some i) = (\<lambda>p. p_user_id p = i)"
  by (auto simp: is_profile_def)



text \<open>With neither row the INSERT breaks the foreign key: the handler answers 500 and the
  database is what it was.\<close>

lemma updateAssessment_without_user_row:
  assumes "user req = Some a" and "faults w = (\<lambda>_. None)"
    and "\<not> list_ex (\<lambda>p. p_user_id p = uid a) (user_profiles (db w))"
    and "\<not> list_ex (\<lambda>u. u_id u = uid a) (users (db w))"
  shows "fst (updateAssessment req w) =
           Inr \<lparr>status = 500, json_body = Some (JObj [(''error'', JStr ''Failed to update assessment'')])\<rparr>
         \<and> db (snd (updateAssessment req w)) = db w"
  using assms
  by (auto simp: updateAssessment_def io_defs userId_of_def Let_def is_profile_Some list_ex_iff
      filter_empty_conv res_status_json_def error_body_def)

subsection \<open>updateCustomId\<close>



text \<open>A requester with no row in \<^verbatim>\<open>users\<close>: the UPDATE matches nothing, the tables are
  unchanged and the answer is a 200 with no JSON text.\<close>

lemma updateCustomId_without_user_row:
  assumes "user req = Some a" and "faults w = (\<lambda>_. None)" and "custom_user_id (body req) = Some c"
    and "\<not> list_ex (\<lambda>u. u_custom_user_id u = Some c \<and> u_id u \<noteq> uid a) (users (db w))"
    and "\<not> list_ex (\<lambda>u. u_id u = uid a) (users (db w))"
  shows "fst (updateCustomId req w) = Inr \<lparr>status = 200, json_body = None\<rparr>
         \<and> users (db (snd (updateCustomId req w))) = users (db w)
         \<and> user_profiles (db (snd (updateCustomId req w))) = user_profiles (db w)"
proof -
  have same: "map (\<lambda>u. if u_id u = uid a then f u else u) (users (db w)) = users (db w)" for f
    using assms(5) by (induction "users (db w)") (auto simp: list_ex_iff map_idI)
  show ?thesis
    using assms
    by (auto simp: updateCustomId_def io_defs userId_of_def Let_def is_user_Some list_ex_iff
        filter_empty_conv index0_simps same res_json_def res_status_json_def)
qed

subsection \<open>deleteUser\<close>

lemma member_text_photo:
  "member_text (index0 (map (\<lambda>u. JObj [(''photo_url'', text_json (u_photo_url u))]) us)) ''photo_url'' =
     (case us of [] \<Rightarrow> None | u # _ \<Rightarrow> u_photo_url u)"
  by (auto simp: member_text_def index0_def text_json_def split: list.splits option.splits)

text \<open>
  C8. For an authenticated user, with no transaction open, when the six database calls
  (connect, BEGIN, the SELECT of \<^verbatim>\<open>photo_url\<close>, the two DELETEs, COMMIT) succeed,
  \<open>deleteUser\<close> answers 200 with \<^verbatim>\<open>{message: 'User deleted successfully'}\<close>, both
  tables have lost the user's rows and no transaction is open, whether the seventh
  call, the \<^verbatim>\<open>unlink\<close> of the photo, succeeds or fails. In the trace the profile is
  deleted before the user, COMMIT comes before the \<^verbatim>\<open>unlink\<close>, and the \<^verbatim>\<open>unlink\<close> is
  attempted only for a non-empty \<^verbatim>\<open>photo_url\<close>.
\<close>

theorem deleteUser_commits_before_cleanup:
  assumes "user req = Some a" and "uid a \<noteq> []" and "txn w = None"
    and "\<forall>k<6. faults w (calls w + k) = None"
  shows "fst (deleteUser req w) =
           Inr (res_status_json 200 (Some (JObj [(''message'', JStr ''User deleted successfully'')])))
         \<and> db (snd (deleteUser req w)) =
             \<lparr>users = filter (\<lambda>u. u_id u \<noteq> uid a) (users (db w)),
              user_profiles = filter (\<lambda>p. p_user_id p \<noteq> uid a) (user_profiles (db w))\<rparr>
         \<and> txn (snd (deleteUser req w)) = None
         \<and> trace (snd (deleteUser req w)) =
             trace w @
               [(Connect, True),
                (ClientQuery BEGIN, True),
                (ClientQuery (SelectPhotoUrl (Some (uid a))), True),
                (ClientQuery (DeleteProfile (Some (uid a))), True),
                (ClientQuery (DeleteUserRow (Some (uid a))), True),
                (ClientQuery COMMIT, True)]
               @ (case (case filter (\<lambda>u. u_id u = uid a) (users (db w)) of
                          [] \<Rightarrow> None | u # _ \<Rightarrow> u_photo_url u) of
                    None \<Rightarrow> []
                  | Some url \<Rightarrow>
                      if url = [] then []
                      else [(Unlink (path_join (cwd w) url),
                             faults w (calls w + 6) = None \<and> path_join (cwd w) url \<in> set (files w))])
               @ [(Release, True)]"
proof -
  have f: "faults w (calls w) = None" "faults w (Suc (calls w)) = None"
    "faults w (Suc (Suc (calls w))) = None" "faults w (Suc (Suc (Suc (calls w)))) = None"
    "faults w (Suc (Suc (Suc (Suc (calls w))))) = None"
    "faults w (Suc (Suc (Suc (Suc (Suc (calls w)))))) = None"
    using assms(4) [rule_format, of 0] assms(4) [rule_format, of 1] assms(4) [rule_format, of 2]
      assms(4) [rule_format, of 3] assms(4) [rule_format, of 4] assms(4) [rule_format, of 5]
    by (simp_all add: eval_nat_numeral)
  have d: "x\<lparr>user_profiles := ps, users := us\<rparr> = \<lparr>users = us, user_profiles = ps\<rparr>" for x :: database and us ps
    by simp
  show ?thesis
    using assms(1-3) f
    by (auto simp: deleteUser_def io_defs unlink_def userId_of_def Let_def truthy_def is_user_Some
        is_profile_Some member_text_photo eval_nat_numeral d
        split: list.splits option.splits)
qed

theorem deleteUser_commits_before_cleanup_witness:
  "faults world_unwritable (calls world_unwritable + 0) = None
   \<and> faults world_unwritable (calls world_unwritable + 1) = None
   \<and> faults world_unwritable (calls world_unwritable + 2) = None
   \<and> faults world_unwritable (calls world_unwritable + 3) = None
   \<and> faults world_unwritable (calls world_unwritable + 4) = None
   \<and> faults world_unwritable (calls world_unwritable + 5) = None
   \<and> faults world_unwritable (calls world_unwritable + 6) \<noteq> None
   \<and> fst (deleteUser (request_of ''u1'' ''alice@example.org'' no_body) world_unwritable) =
       Inr \<lparr>status = 200, json_body = Some (JObj [(''message'', JStr ''User deleted successfully'')])\<rparr>
   \<and> db (snd (deleteUser (request_of ''u1'' ''alice@example.org'' no_body) world_unwritable)) =
       \<lparr>users = [bob], user_profiles = []\<rparr>
   \<and> trace (snd (deleteUser (request_of ''u1'' ''alice@example.org'' no_body) world_unwritable)) =
       [(Connect, True),
        (ClientQuery BEGIN, True),
        (ClientQuery (SelectPhotoUrl (Some ''u1'')), True),
        (ClientQuery (DeleteProfile (Some ''u1'')), True),
        (ClientQuery (DeleteUserRow (Some ''u1'')), True),
        (ClientQuery COMMIT, True),
        (Unlink ''/srv/uploads/profile-photos/a.png'', False),
        (Release, True)]"
  using deleteUser_commits_before_cleanup
          [of "request_of ''u1'' ''alice@example.org'' no_body"
              "\<lparr>uid = ''u1'', email = Some ''alice@example.org''\<rparr>" world_unwritable]
  by (simp add: world_unwritable_def example_defs res_status_json_def path_join_def)

subsection \<open>deleteAssessmentResults\<close>

lemma ne_any_iff: "ne_any x ds \<longleftrightarrow> (\<exists>s. x = Some s \<and> (\<exists>d\<in>set ds. s \<noteq> d))"
  by (cases x) (auto simp: ne_any_def list_ex_iff)

text \<open>With one date the filter keeps the entries of another date; with two different
  dates every entry differs from one of them, so every dated entry is kept.\<close>

lemma delete_dates_single:
  "delete_dates rn [d] (Some (JArr es)) =
     Inr (if filter (\<lambda>r. \<exists>s. arrow_text rn r ''date'' = Some s \<and> s \<noteq> d) es = [] then None
          else Some (JArr (filter (\<lambda>r. \<exists>s. arrow_text rn r ''date'' = Some s \<and> s \<noteq> d) es)))"
  by (simp add: delete_dates_def ne_any_iff Let_def)

lemma delete_dates_distinct_pair:
  assumes "a \<in> set ds" and "b \<in> set ds" and "a \<noteq> b"
    and "list_all (\<lambda>r. arrow_text rn r ''date'' \<noteq> None) es" and "es \<noteq> []"
  shows "delete_dates rn ds (Some (JArr es)) = Inr (Some (JArr es))"
proof -
  have "ne_any (Some s) ds" for s
    using assms(1-3) by (cases "s = a") (auto simp: ne_any_iff)
  then have "filter (\<lambda>r. ne_any (arrow_text rn r ''date'') ds) es = es"
    using assms(4) by (auto simp: list_all_iff filter_id_conv)
  then show ?thesis
    using assms(5) by (simp add: delete_dates_def)
qed

text \<open>
  C1. The claim is that every entry whose \<^verbatim>\<open>date\<close> is among \<^verbatim>\<open>dates\<close> is removed. For a
  profile with entries of 2024-01-01, 2024-01-02 and 2024-01-03 and
  \<^verbatim>\<open>dates = ['2024-01-01', '2024-01-02']\<close> the handler answers 200 with all three entries
  still in \<^verbatim>\<open>assessment_results\<close>, and \<^verbatim>\<open>completed_assessments\<close> lowered from 3 to 1:
  \<^verbatim>\<open>!= ANY\<close> holds for an entry as soon as one of the dates differs from its own.
\<close>

theorem deleteAssessmentResults_two_dates_remove_nothing:
  "fst (deleteAssessmentResults
          (request_of ''u1'' ''alice@example.org'' (no_body\<lparr>dates := Some [''2024-01-01'', ''2024-01-02'']\<rparr>))
          world0) =
     Inr \<lparr>status = 200,
          json_body = Some (JObj
            [(''user_id'', JStr ''u1''),
             (''major'', JStr ''Physics''),
             (''interests'', JArr [JStr ''chess'']),
             (''completed_assessments'', JNum 1),
             (''assessment_results'',
                JArr [entry ''2024-01-01'' 10, entry ''2024-01-02'' 20, entry ''2024-01-03'' 30]),
             (''updated_at'', JNum 100)])\<rparr>
   \<and> user_profiles (db (snd (deleteAssessmentResults
          (request_of ''u1'' ''alice@example.org'' (no_body\<lparr>dates := Some [''2024-01-01'', ''2024-01-02'']\<rparr>))
          world0))) =
     [alice_profile\<lparr>p_completed_assessments := 1, p_updated_at := 100\<rparr>]"
  by (simp add: deleteAssessmentResults_def io_defs userId_of_def Let_def example_defs is_profile_Some
      delete_dates_def ne_any_def arrow_text_def index0_simps profile_json_def res_json_def
      res_status_json_def text_json_def jsonb_json_def)

subsection \<open>Failure paths\<close>

lemmas contract_defs = failure_contract_def new_trace_def failed_call_def failed_db_call_def
  has_error_def res_status_json_def res_json_def error_body_def

lemma getProfile_contract: "txn w = None \<Longrightarrow> failure_contract w (getProfile req w)"
  by (auto simp: getProfile_def io_defs contract_defs Let_def split: option.splits sum.splits prod.splits)

lemma updateProfile_contract: "txn w = None \<Longrightarrow> failure_contract w (updateProfile req w)"
  by (auto simp: updateProfile_def io_defs contract_defs Let_def split: option.splits sum.splits prod.splits)

lemma updateAssessment_contract: "failure_contract w (updateAssessment req w)"
  by (auto simp: updateAssessment_def io_defs contract_defs Let_def split: option.splits sum.splits prod.splits)

lemma deleteAssessmentResults_contract: "failure_contract w (deleteAssessmentResults req w)"
  by (auto simp: deleteAssessmentResults_def io_defs contract_defs Let_def split: option.splits sum.splits prod.splits)

lemma updateCustomId_contract: "failure_contract w (updateCustomId req w)"
  by (auto simp: updateCustomId_def io_defs contract_defs Let_def split: option.splits sum.splits prod.splits)

lemma checkCustomId_contract: "failure_contract w (checkCustomId req w)"
  by (auto simp: checkCustomId_def io_defs contract_defs Let_def split: option.splits sum.splits prod.splits)

lemma updateProfilePhoto_contract: "failure_contract w (updateProfilePhoto req w)"
  by (auto simp: updateProfilePhoto_def io_defs contract_defs Let_def existsSync_def mkdirSync_def upload_def
      split: option.splits sum.splits prod.splits)

lemma deleteUser_contract: "txn w = None \<Longrightarrow> failure_contract w (deleteUser req w)"
  by (auto simp: deleteUser_def io_defs contract_defs Let_def unlink_def split: option.splits sum.splits prod.splits)

lemma checkUsername_contract: "txn w = None \<Longrightarrow> failure_contract w (checkUsername req w)"
  by (auto simp: checkUsername_def io_defs contract_defs Let_def split: option.splits sum.splits prod.splits)

lemma errorHandler_has_error: "has_error (errorHandler err w)"
  by (simp add: errorHandler_def has_error_def res_status_json_def Let_def)

lemma profileController_contract:
  "txn w = None \<Longrightarrow> failure_contract w (profileController op req w)"
  by (cases op)
    (simp_all add: getProfile_contract updateProfile_contract updateAssessment_contract
      deleteAssessmentResults_contract updateCustomId_contract checkCustomId_contract
      updateProfilePhoto_contract deleteUser_contract checkUsername_contract)

text \<open>For each of the nine methods: a response that is no 200, or that follows a failed
  call (the swallowed \<^verbatim>\<open>unlink\<close> apart), has an \<^verbatim>\<open>error\<close> member.\<close>

lemma answered_failure_has_error:
  assumes "txn w = None" and "profileController op req w = (Inr resp, w')"
    and "status resp \<noteq> 200 \<or> failed_call (new_trace w w')"
  shows "has_error resp"
  using profileController_contract [OF assms(1), of op req] assms(2,3)
  by (auto simp: failure_contract_def)

text \<open>For each of the nine methods: after a failed call to the database the committed
  tables are those before the request, whatever the handler then does.\<close>

lemma failed_db_call_keeps_db:
  assumes "txn w = None"
    and "failed_db_call (new_trace w (snd (profileController op req w)))"
  shows "db (snd (profileController op req w)) = db w"
  using profileController_contract [OF assms(1), of op req] assms(2)
  by (auto simp: failure_contract_def split: prod.splits)

text \<open>Six of the nine methods catch everything and always answer.\<close>

lemma six_methods_always_answer:
  assumes "op \<noteq> DeleteAssessmentResultsOp" and "op \<noteq> DeleteUserOp" and "op \<noteq> UpdateProfilePhotoOp"
  shows "answered (profileController op req w)"
proof (cases op)
  case GetProfileOp
  then show ?thesis
    by (simp add: answered_def getProfile_def catchE_def returnE_def Let_def split: prod.splits sum.splits)
next
  case UpdateProfileOp
  then show ?thesis
    by (simp add: answered_def updateProfile_def catchE_def returnE_def Let_def split: prod.splits sum.splits)
next
  case UpdateAssessmentOp
  then show ?thesis
    by (simp add: answered_def updateAssessment_def catchE_def returnE_def Let_def split: prod.splits sum.splits)
next
  case UpdateCustomIdOp
  then show ?thesis
    by (simp add: answered_def updateCustomId_def catchE_def returnE_def Let_def split: prod.splits sum.splits)
next
  case CheckCustomIdOp
  then show ?thesis
    by (simp add: answered_def checkCustomId_def catchE_def returnE_def Let_def split: prod.splits sum.splits)
next
  case CheckUsernameOp
  then show ?thesis
    by (simp add: answered_def checkUsername_def catchE_def returnE_def Let_def split: prod.splits sum.splits)
qed (use assms in simp_all)

text \<open>The not-found path of \<open>deleteAssessmentResults\<close>: no row of the user, 404.\<close>

lemma deleteAssessmentResults_not_found:
  assumes "user req = Some a" and "faults w = (\<lambda>_. None)" and "dates (body req) = Some ds"
    and "\<not> list_ex (\<lambda>p. p_user_id p = uid a) (user_profiles (db w))"
  shows "fst (deleteAssessmentResults req w) = Inr (res_status_json 404 (error_body ''Profile not found''))"
proof -
  have "update_rows f ps = Inr ps" if "\<forall>p\<in>set ps. f p = Inr p" for f and ps :: "profile_row list"
    using that by (induction ps) auto
  then have "update_rows
      (\<lambda>p. if is_profile (Some (uid a)) p
            then (case delete_dates (render w) ds (p_assessment_results p) of
                    Inl e \<Rightarrow> Inl e
                  | Inr ar \<Rightarrow>
                      Inr (p\<lparr>p_assessment_results := ar,
                             p_completed_assessments := p_completed_assessments p - int (length ds),
                             p_updated_at := clock w\<rparr>))
            else Inr p) (user_profiles (db w)) = Inr (user_profiles (db w))"
    using assms(4) by (auto simp: list_ex_iff is_profile_Some)
  then show ?thesis
    using assms
    by (simp add: deleteAssessmentResults_def io_defs userId_of_def Let_def is_profile_Some
        list_ex_iff filter_empty_conv)
qed

text \<open>
  C5. The claim is that every failure path of every operation answers with a JSON body
  that has an \<^verbatim>\<open>error\<close> member. \<open>deleteAssessmentResults\<close> does not: its \<^verbatim>\<open>catch\<close> logs
  and throws again. When the one statement fails (here: the database drops the
  connection) the handler ends with that exception, having written no response; when
  \<^verbatim>\<open>dates\<close> is absent from the body it ends with the TypeError of \<^verbatim>\<open>dates.length\<close>, before
  any call. \<^verbatim>\<open>app.ts\<close> registers no error middleware after the routes, so nothing in the
  sources turns the exception into a JSON body. The sibling \<open>updateAssessment\<close>, under the
  same failure, answers 500 with \<^verbatim>\<open>{error: 'Failed to update assessment'}\<close>.
\<close>

theorem deleteAssessmentResults_throws_instead_of_answering:
  "deleteAssessmentResults
     (request_of ''u1'' ''alice@example.org'' (no_body\<lparr>dates := Some [''2024-01-01'']\<rparr>))
     world_query_fails =
     (Inl (Error ''connection terminated''),
      world_query_fails
        \<lparr>calls := 1,
         trace := [(PoolQuery (DeleteAssessment [''2024-01-01''] 1 (Some ''u1'')), False)]\<rparr>)
   \<and> deleteAssessmentResults (request_of ''u1'' ''alice@example.org'' no_body) world0 =
       (Inl (Error ''Cannot read properties of undefined (reading 'length')''), world0)
   \<and> fst (updateAssessment
        (request_of ''u1'' ''alice@example.org'' (no_body\<lparr>results := Some (JArr [])\<rparr>))
        world_query_fails) =
       Inr \<lparr>status = 500, json_body = Some (JObj [(''error'', JStr ''Failed to update assessment'')])\<rparr>"
  by (simp add: deleteAssessmentResults_def updateAssessment_def io_defs userId_of_def Let_def
      world_query_fails_def example_defs res_status_json_def error_body_def)

end
